theory Spec2Isabelle
  imports Main "HOL-Library.Sublist"
begin

section \<open>Stream addresses\<close>

text \<open>
  Go strings are byte sequences, and so are HOL strings. A \<open>streaming.StreamID\<close> is a
  Go string type; the owner-node component is kept as a string as well.
\<close>

type_synonym StreamID = string
type_synonym NodeID = string

subsection \<open>parseStreamID (mediaserver.go, lines 306-314)\<close>

text \<open>
  The regular expression is \<^verbatim>\<open>\/stream\/([[:alpha:]]|\d)*\<close>: the literal \<^verbatim>\<open>/stream/\<close>
  followed by a greedy run of ASCII letters and ASCII digits.
\<close>

definition isAlpha :: "char \<Rightarrow> bool" where
  "isAlpha c = (let n = (of_char c :: nat) in (65 \<le> n \<and> n \<le> 90) \<or> (97 \<le> n \<and> n \<le> 122))"

definition isDigit :: "char \<Rightarrow> bool" where
  "isDigit c = (let n = (of_char c :: nat) in 48 \<le> n \<and> n \<le> 57)"

definition alnum :: "char \<Rightarrow> bool" where
  "alnum c = (isAlpha c \<or> isDigit c)"

text \<open>
  \<open>regex.FindString\<close>: the text of the leftmost match, the empty string when there is
  none. A match starts at the first position where \<^verbatim>\<open>/stream/\<close> occurs and extends over
  the longest run of letters and digits after it.
\<close>

fun FindString :: "string \<Rightarrow> string" where
  "FindString [] = []"
| "FindString (c # cs) =
     (if prefix ''/stream/'' (c # cs)
      then ''/stream/'' @ takeWhile alnum (drop 8 (c # cs))
      else FindString cs)"

text \<open>
  \<open>strings.Replace(s, old, new, -1)\<close> for a non-empty \<open>old\<close>: every non-overlapping
  occurrence, from left to right. The source only calls it with \<open>old = "/stream/"\<close>; for
  an empty \<open>old\<close> (where Go inserts \<open>new\<close> between the runes) the model leaves \<open>s\<close> as it is.
\<close>

fun Replace :: "string \<Rightarrow> string \<Rightarrow> string \<Rightarrow> string" where
  "Replace old new [] = []"
| "Replace old new (c # cs) =
     (if old \<noteq> [] \<and> prefix old (c # cs)
      then new @ Replace old new (drop (length old - 1) cs)
      else c # Replace old new cs)"

definition parseStreamID :: "string \<Rightarrow> string" where
  "parseStreamID reqPath =
     (let match = FindString reqPath
      in if match \<noteq> [] then Replace ''/stream/'' [] match else [])"

subsection \<open>MakeStreamID and SplitComponents\<close>

text \<open>
  Modelled from the spec: \<open>streaming.MakeStreamID\<close> and \<open>StreamID.SplitComponents\<close> are
  called by the handlers but their source file is not part of the sources at hand. The
  specification gives the string form of an address as the concatenation
  \<open>ownerNodeID + separator + localStreamID\<close> and calls \<open>SplitComponents\<close> its pure
  decomposition. The separator is not named, so it is a parameter; decomposition splits
  at the first occurrence of the separator, and an address without one has two empty
  components (it is not valid).
\<close>

definition specMakeStreamID :: "string \<Rightarrow> NodeID \<Rightarrow> string \<Rightarrow> StreamID" where
  "specMakeStreamID sep nodeID localID = nodeID @ sep @ localID"

fun splitAtSep :: "string \<Rightarrow> string \<Rightarrow> string \<Rightarrow> (string \<times> string) option" where
  "splitAtSep sep acc [] = (if sep = [] then Some (rev acc, []) else None)"
| "splitAtSep sep acc (c # cs) =
     (if prefix sep (c # cs) then Some (rev acc, drop (length sep) (c # cs))
      else splitAtSep sep (c # acc) cs)"

definition specSplitComponents :: "string \<Rightarrow> StreamID \<Rightarrow> NodeID \<times> string" where
  "specSplitComponents sep addr =
     (case splitAtSep sep [] addr of None \<Rightarrow> ([], []) | Some p \<Rightarrow> p)"

section \<open>Collaborators and the state of the media server\<close>

datatype VideoFormat = RTMP | HLS

text \<open>
  \<open>ErrNotFound\<close> and \<open>ErrStreamPublish\<close> are the two package-level error values of
  mediaserver.go; \<open>ErrorsNew msg\<close> is a value made in place by \<open>errors.New(msg)\<close>, which is
  a different value from both; \<open>CollabError\<close> is an error handed back by a collaborator.
\<close>

datatype error = ErrNotFound | ErrStreamPublish | ErrorsNew string | CollabError string

text \<open>A call that dereferences a nil stream pointer panics instead of returning.\<close>

datatype 'a result = Ret 'a | PanicNilDeref

text \<open>
  A network stream as the handlers see it: its id, its format, and a serial number that
  stands for the identity of the object behind the pointer.
\<close>

record NetworkStream =
  GetStreamID :: string
  Format :: VideoFormat
  serial :: nat

type_synonym HLSBuffer = nat
type_synonym Queue = nat

text \<open>Every call a handler makes on a collaborator is written to a trace, in order.\<close>

datatype call =
    CGetNetworkStream StreamID
  | CAddNewNetworkStream StreamID VideoFormat
  | CGetHLSMuxer StreamID string
  | CNewHLSBuffer nat nat
  | CSubscribeToHLSStream StreamID string HLSBuffer
  | CUnsubscribeToHLSStream StreamID string
  | CSubscribeToRTMPStream StreamID string Queue
  | CUnsubscribeToRTMPStream StreamID string
  | CForwarderStream StreamID VideoFormat
  | CForwarderStopStream StreamID VideoFormat
  | CLatestPlaylist HLSBuffer
  | CSleep int
  | CCopyFile Queue
  | CLogBroadcast string
  | CLogConsume string

text \<open>
  The Streamer, the Forwarder (\<open>storage.CloudStore\<close>), the visualisation client, the
  buffers and queues of lpms and joy4, and the random source are collaborators whose code
  is not part of the sources at hand. The handlers are modelled over any behaviour of
  them: \<open>'s\<close> is the collaborators' joint state, and each operation is a function of it.
  An operation whose error the handlers ignore returns the new state only.
  \<open>Sleep\<close> returns by how much the pause overshot the requested duration
  (\<open>time.Sleep\<close> pauses for at least the duration), and the state as the rest of the
  system left it meanwhile. \<open>CopyFile\<close> is \<open>None\<close> when the copy never returns.
\<close>

record 's Collab =
  SelfAddress :: NodeID
  SplitComponents :: "StreamID \<Rightarrow> NodeID \<times> string"
  MakeStreamID :: "NodeID \<Rightarrow> string \<Rightarrow> StreamID"
  RandomStreamID :: "'s \<Rightarrow> string \<times> 's"
  Sprintf_x :: "string \<Rightarrow> string"
  GetNetworkStream :: "StreamID \<Rightarrow> 's \<Rightarrow> NetworkStream option"
  AddNewNetworkStream ::
    "StreamID \<Rightarrow> VideoFormat \<Rightarrow> 's \<Rightarrow> (NetworkStream option \<times> error option) \<times> 's"
  GetHLSMuxer :: "StreamID \<Rightarrow> string \<Rightarrow> 's \<Rightarrow> HLSBuffer option"
  NewHLSBuffer :: "nat \<Rightarrow> nat \<Rightarrow> 's \<Rightarrow> HLSBuffer \<times> 's"
  SubscribeToHLSStream :: "StreamID \<Rightarrow> string \<Rightarrow> HLSBuffer \<Rightarrow> 's \<Rightarrow> error option \<times> 's"
  UnsubscribeToHLSStream :: "StreamID \<Rightarrow> string \<Rightarrow> 's \<Rightarrow> 's"
  LatestPlaylist :: "HLSBuffer \<Rightarrow> 's \<Rightarrow> error option \<times> 's"
  NewQueue :: "'s \<Rightarrow> Queue \<times> 's"
  SubscribeToRTMPStream :: "StreamID \<Rightarrow> string \<Rightarrow> Queue \<Rightarrow> 's \<Rightarrow> error option \<times> 's"
  UnsubscribeToRTMPStream :: "StreamID \<Rightarrow> string \<Rightarrow> 's \<Rightarrow> 's"
  CopyFile :: "Queue \<Rightarrow> 's \<Rightarrow> (error option \<times> 's) option"
  ForwarderStream :: "StreamID \<Rightarrow> VideoFormat \<Rightarrow> 's \<Rightarrow> 's"
  ForwarderStopStream :: "StreamID \<Rightarrow> VideoFormat \<Rightarrow> 's \<Rightarrow> 's"
  LogBroadcast :: "string \<Rightarrow> 's \<Rightarrow> 's"
  LogConsume :: "string \<Rightarrow> 's \<Rightarrow> 's"
  Sleep :: "int \<Rightarrow> 's \<Rightarrow> nat \<times> 's"

text \<open>
  The media server's own state: the map \<open>hlsSubTimer\<close> made in \<open>StartLPMS\<close>, the clock
  read by \<open>time.Now\<close> (in nanoseconds, as \<open>time.Duration\<close> counts), the collaborators'
  state and the trace. Only \<open>time.Sleep\<close> moves the clock: the other statements take no
  time in the model.
\<close>

record 's world =
  ext :: 's
  hlsSubTimer :: "StreamID \<rightharpoonup> int"
  clock :: int
  calls :: "call list"

definition Second :: int where
  "Second = 1000000000"

definition HLSWaitTime :: int where
  "HLSWaitTime = Second * 10"

definition HLSBufferCap :: nat where
  "HLSBufferCap = 43200"

definition HLSBufferWindow :: nat where
  "HLSBufferWindow = 5"

definition HLSUnsubscribeWaitLimit :: int where
  "HLSUnsubscribeWaitLimit = Second * 20"

definition logCall :: "call \<Rightarrow> 's world \<Rightarrow> 's world" where
  "logCall c w = w\<lparr>calls := calls w @ [c]\<rparr>"

definition sleep :: "'s Collab \<Rightarrow> int \<Rightarrow> 's world \<Rightarrow> 's world" where
  "sleep E d w =
     (let (over, s1) = Sleep E d (ext w)
      in logCall (CSleep d) (w\<lparr>ext := s1, clock := clock w + d + int over\<rparr>))"

definition forwarderStream :: "'s Collab \<Rightarrow> StreamID \<Rightarrow> VideoFormat \<Rightarrow> 's world \<Rightarrow> 's world" where
  "forwarderStream E strmID fmt w =
     logCall (CForwarderStream strmID fmt) (w\<lparr>ext := ForwarderStream E strmID fmt (ext w)\<rparr>)"

definition forwarderStopStream :: "'s Collab \<Rightarrow> StreamID \<Rightarrow> VideoFormat \<Rightarrow> 's world \<Rightarrow> 's world" where
  "forwarderStopStream E strmID fmt w =
     logCall (CForwarderStopStream strmID fmt)
       (w\<lparr>ext := ForwarderStopStream E strmID fmt (ext w)\<rparr>)"

definition unsubscribeToHLSStream :: "'s Collab \<Rightarrow> StreamID \<Rightarrow> string \<Rightarrow> 's world \<Rightarrow> 's world" where
  "unsubscribeToHLSStream E strmID subID w =
     logCall (CUnsubscribeToHLSStream strmID subID)
       (w\<lparr>ext := UnsubscribeToHLSStream E strmID subID (ext w)\<rparr>)"

definition unsubscribeToRTMPStream :: "'s Collab \<Rightarrow> StreamID \<Rightarrow> string \<Rightarrow> 's world \<Rightarrow> 's world" where
  "unsubscribeToRTMPStream E strmID subID w =
     logCall (CUnsubscribeToRTMPStream strmID subID)
       (w\<lparr>ext := UnsubscribeToRTMPStream E strmID subID (ext w)\<rparr>)"

definition addNewNetworkStream ::
  "'s Collab \<Rightarrow> StreamID \<Rightarrow> VideoFormat \<Rightarrow> 's world
   \<Rightarrow> NetworkStream option \<times> error option \<times> 's world" where
  "addNewNetworkStream E strmID fmt w =
     (let ((strm, err), s1) = AddNewNetworkStream E strmID fmt (ext w)
      in (strm, err, logCall (CAddNewNetworkStream strmID fmt) (w\<lparr>ext := s1\<rparr>)))"

text \<open>
  \<open>streaming.MakeStreamID(streamer.SelfAddress, fmt.Sprintf("%x", streaming.RandomStreamID()))\<close>
\<close>

definition mintStreamID :: "'s Collab \<Rightarrow> 's world \<Rightarrow> StreamID \<times> 's world" where
  "mintStreamID E w =
     (let (h, s1) = RandomStreamID E (ext w)
      in (MakeStreamID E (SelfAddress E) (Sprintf_x E h), w\<lparr>ext := s1\<rparr>))"

section \<open>The idle reaper: startHlsUnsubscribeWorker (lines 39-50)\<close>

text \<open>The body of the \<open>range\<close> loop for one key of the map.\<close>

definition reapEntry :: "'s Collab \<Rightarrow> int \<Rightarrow> StreamID \<Rightarrow> 's world \<Rightarrow> 's world" where
  "reapEntry E limit sid w =
     (case hlsSubTimer w sid of
        None \<Rightarrow> w
      | Some t \<Rightarrow>
          if clock w - t > limit
          then let w1 = unsubscribeToHLSStream E sid ''local'' w;
                   w2 = forwarderStopStream E sid HLS w1
               in w2\<lparr>hlsSubTimer := (hlsSubTimer w2)(sid := None)\<rparr>
          else w)"

text \<open>
  One sweep over the map. Go leaves the order of a \<open>range\<close> over a map open, so the order
  in which the keys come is a parameter; a key deleted before it is reached is not
  produced.
\<close>

definition sweep :: "'s Collab \<Rightarrow> int \<Rightarrow> StreamID list \<Rightarrow> 's world \<Rightarrow> 's world" where
  "sweep E limit order w = fold (reapEntry E limit) order w"

text \<open>One turn of the worker's endless loop: the five-second pause, then the sweep.\<close>

definition hlsUnsubscribeWorkerTurn ::
  "'s Collab \<Rightarrow> int \<Rightarrow> StreamID list \<Rightarrow> 's world \<Rightarrow> 's world" where
  "hlsUnsubscribeWorkerTurn E limit order w = sweep E limit order (sleep E (Second * 5) w)"

section \<open>HLS playback: the HandleHLSPlay handler (lines 60-122)\<close>

text \<open>
  Lines 92-104: the buffer of subscriber \<open>local\<close>, made and subscribed when there is
  none. Every muxer of the model is an \<open>HLSBuffer\<close>, so the type assertions of lines 110
  and 113 hold.
\<close>

definition getHLSBuffer ::
  "'s Collab \<Rightarrow> StreamID \<Rightarrow> 's world \<Rightarrow> (error + HLSBuffer) \<times> 's world" where
  "getHLSBuffer E strmID w =
     (let subID = ''local'';
          hlsBuffer = GetHLSMuxer E strmID subID (ext w);
          w1 = logCall (CGetHLSMuxer strmID subID) w
      in case hlsBuffer of
           None \<Rightarrow>
             (let (b, s1) = NewHLSBuffer E HLSBufferWindow HLSBufferCap (ext w1);
                  w2 = logCall (CNewHLSBuffer HLSBufferWindow HLSBufferCap) (w1\<lparr>ext := s1\<rparr>);
                  (err, s2) = SubscribeToHLSStream E strmID subID b (ext w2);
                  w3 = logCall (CSubscribeToHLSStream strmID subID b) (w2\<lparr>ext := s2\<rparr>)
              in case err of Some e \<Rightarrow> (Inl e, w3) | None \<Rightarrow> (Inr b, w3))
         | Some b \<Rightarrow> (Inr b, w1))"

text \<open>
  Lines 108-121, one turn of the loop: \<open>Inl\<close> is the handler's return, \<open>Inr\<close> the state in
  which the loop goes round again.
\<close>

definition pollStep ::
  "'s Collab \<Rightarrow> StreamID \<Rightarrow> HLSBuffer \<Rightarrow> int \<Rightarrow> 's world
   \<Rightarrow> ((error + HLSBuffer) \<times> 's world) + 's world" where
  "pollStep E strmID hlsBuffer startTime w =
     (let (err, s1) = LatestPlaylist E hlsBuffer (ext w);
          w1 = logCall (CLatestPlaylist hlsBuffer) (w\<lparr>ext := s1\<rparr>)
      in case err of
           None \<Rightarrow>
             Inl (Inr hlsBuffer, w1\<lparr>hlsSubTimer := (hlsSubTimer w1)(strmID \<mapsto> clock w1)\<rparr>)
         | Some e \<Rightarrow>
             (let w2 = sleep E (Second * 2) w1
              in if clock w2 - startTime > HLSWaitTime
                 then Inl (Inl ErrNotFound, w2)
                 else Inr w2))"

function pollLoop ::
  "'s Collab \<Rightarrow> StreamID \<Rightarrow> HLSBuffer \<Rightarrow> int \<Rightarrow> 's world \<Rightarrow> (error + HLSBuffer) \<times> 's world" where
  "pollLoop E strmID hlsBuffer startTime w =
     (case pollStep E strmID hlsBuffer startTime w of
        Inl r \<Rightarrow> r
      | Inr w' \<Rightarrow> pollLoop E strmID hlsBuffer startTime w')"
  by pat_completeness auto
termination
proof (relation "measure (\<lambda>(E, strmID, b, startTime, w). nat (startTime + HLSWaitTime + 1 - clock w))")
  show "wf (measure (\<lambda>(E :: 's Collab, strmID :: StreamID, b :: HLSBuffer, startTime, w :: 's world).
              nat (startTime + HLSWaitTime + 1 - clock w)))"
    by simp
next
  fix E :: "'s Collab" and strmID :: StreamID and hlsBuffer :: HLSBuffer and startTime :: int
    and w w' :: "'s world"
  assume "pollStep E strmID hlsBuffer startTime w = Inr w'"
  then have "clock w < clock w' \<and> clock w' - startTime \<le> HLSWaitTime"
    by (auto simp: pollStep_def sleep_def logCall_def Second_def Let_def
             split: prod.splits option.splits if_splits)
  then show "((E, strmID, hlsBuffer, startTime, w'), (E, strmID, hlsBuffer, startTime, w))
        \<in> measure (\<lambda>(E, strmID, b, startTime, w). nat (startTime + HLSWaitTime + 1 - clock w))"
    by simp
qed

declare pollLoop.simps [simp del]

definition HandleHLSPlay ::
  "'s Collab \<Rightarrow> string \<Rightarrow> 's world \<Rightarrow> (error + HLSBuffer) \<times> 's world" where
  "HandleHLSPlay E reqPath w =
     (let strmID = parseStreamID reqPath;
          (nodeID, streamID) = SplitComponents E strmID
      in if strmID = [] \<or> streamID = []
         then (Inl (ErrorsNew ''Stream Not Found''), w)
         else
           let strm = GetNetworkStream E strmID (ext w);
               w1 = logCall (CGetNetworkStream strmID) w
           in if strm = None \<and> \<not> (SelfAddress E \<noteq> nodeID)
              then (Inl ErrNotFound, w1)
              else
                let w2 = (if strm = None then forwarderStream E strmID HLS w1 else w1)
                in case getHLSBuffer E strmID w2 of
                     (Inl err, w3) \<Rightarrow> (Inl err, w3)
                   | (Inr hlsBuffer, w3) \<Rightarrow> pollLoop E strmID hlsBuffer (clock w3) w3)"

section \<open>RTMP publish: the getStream handler of HandleRTMPPublish (lines 130-174)\<close>

text \<open>
  Of the request URL the handler reads the path and the query parameter \<open>hlsStrmID\<close>
  (\<open>url.Query().Get\<close> gives the empty string when the parameter is absent).
\<close>

record URL =
  Path :: string
  hlsStrmIDParam :: string

definition getStream ::
  "'s Collab \<Rightarrow> URL \<Rightarrow> 's world
   \<Rightarrow> (error + NetworkStream \<times> NetworkStream) result \<times> 's world" where
  "getStream E url w =
     (let parsed = parseStreamID (Path url);
          (rtmpStrmID, w1) = (if parsed = [] then mintStreamID E w else (parsed, w));
          (nodeID, _) = SplitComponents E rtmpStrmID
      in if nodeID \<noteq> SelfAddress E
         then (Ret (Inl ErrStreamPublish), w1)
         else
           let found = GetNetworkStream E rtmpStrmID (ext w1);
               w2 = logCall (CGetNetworkStream rtmpStrmID) w1;
               (rtmpStream, rtmpErr, w3) =
                 (case found of
                    None \<Rightarrow> addNewNetworkStream E rtmpStrmID RTMP w2
                  | Some strm \<Rightarrow> (Some strm, None, w2))
           in if rtmpErr \<noteq> None
              then (Ret (Inl ErrStreamPublish), w3)
              else
                let q = hlsStrmIDParam url;
                    (hlsStrmID, w4) = (if q = [] then mintStreamID E w3 else (q, w3));
                    (nodeID2, _) = SplitComponents E hlsStrmID
                in if nodeID2 \<noteq> SelfAddress E
                   then (Ret (Inl ErrStreamPublish), w4)
                   else
                     let (hlsStream, err, w5) = addNewNetworkStream E hlsStrmID HLS w4
                     in if err \<noteq> None
                        then (Ret (Inl ErrStreamPublish), w5)
                        else
                          (case (rtmpStream, hlsStream) of
                             (Some r, Some h) \<Rightarrow>
                               let w6 = logCall (CLogBroadcast (GetStreamID r))
                                          (w5\<lparr>ext := LogBroadcast E (GetStreamID r) (ext w5)\<rparr>);
                                   w7 = logCall (CLogBroadcast (GetStreamID h))
                                          (w6\<lparr>ext := LogBroadcast E (GetStreamID h) (ext w6)\<rparr>)
                               in (Ret (Inr (r, h)), w7)
                           | _ \<Rightarrow> (PanicNilDeref, w5)))"

section \<open>RTMP playback: the HandleRTMPPlay handler (lines 184-228)\<close>

text \<open>
  Lines 202-213: the consumption event, the lookup, the forward when the stream is not
  known here, the fresh queue and subscriber id, and the subscription. The result is the
  subscription's error, the queue, the subscriber id and the state.
\<close>

definition rtmpSubscribe ::
  "'s Collab \<Rightarrow> StreamID \<Rightarrow> 's world \<Rightarrow> error option \<times> Queue \<times> string \<times> 's world" where
  "rtmpSubscribe E strmID w =
     (let w1 = logCall (CLogConsume strmID) (w\<lparr>ext := LogConsume E strmID (ext w)\<rparr>);
          strm = GetNetworkStream E strmID (ext w1);
          w2 = logCall (CGetNetworkStream strmID) w1;
          w3 = (if strm = None then forwarderStream E strmID RTMP w2 else w2);
          (q, s4) = NewQueue E (ext w3);
          (subID, s5) = RandomStreamID E s4;
          (err, s6) = SubscribeToRTMPStream E strmID subID q s5
      in (err, q, subID, logCall (CSubscribeToRTMPStream strmID subID q) (w3\<lparr>ext := s6\<rparr>)))"

text \<open>Lines 219-227: the copy, and what follows when it ends.\<close>

definition rtmpCopy ::
  "'s Collab \<Rightarrow> StreamID \<Rightarrow> string \<Rightarrow> Queue \<Rightarrow> 's world \<Rightarrow> (error option \<times> 's world) option" where
  "rtmpCopy E strmID subID q w =
     (case CopyFile E q (ext w) of
        None \<Rightarrow> None
      | Some (err, s1) \<Rightarrow>
          let w1 = logCall (CCopyFile q) (w\<lparr>ext := s1\<rparr>);
              w2 = unsubscribeToRTMPStream E strmID subID w1;
              w3 = forwarderStopStream E strmID RTMP w2
          in Some (err, w3))"

text \<open>
  The handler. Its result is \<open>None\<close> when it never returns (it waits on the channel for
  a copy that does not end); otherwise it is the returned Go error, \<open>None\<close> for \<open>nil\<close>.
  The path is parsed in place, by the statements of \<open>parseStreamID\<close>.
\<close>

definition HandleRTMPPlay ::
  "'s Collab \<Rightarrow> string \<Rightarrow> 's world \<Rightarrow> (error option \<times> 's world) option" where
  "HandleRTMPPlay E reqPath w =
     (let match = FindString reqPath;
          strmID = (if match \<noteq> [] then Replace ''/stream/'' [] match else [])
      in if strmID = []
         then Some (Some (ErrorsNew ''Stream Not Found''), w)
         else
           let (err, q, subID, w1) = rtmpSubscribe E strmID w
           in case err of
                Some e \<Rightarrow> Some (Some e, w1)
              | None \<Rightarrow> rtmpCopy E strmID subID q w1)"

section \<open>The /createStream endpoint (lines 230-244)\<close>

text \<open>
  The response body is the JSON object of the map \<open>res\<close>; the model returns the map.
  \<open>GetStreamID\<close> on a nil stream pointer reads a field through it and panics.
\<close>

definition createStream ::
  "'s Collab \<Rightarrow> 's world \<Rightarrow> (string \<times> string) list result \<times> 's world" where
  "createStream E w =
     (let (strmID, w1) = mintStreamID E w;
          (newRTMPStream, _, w2) = addNewNetworkStream E strmID RTMP w1
      in case newRTMPStream of
           None \<Rightarrow> (PanicNilDeref, w2)
         | Some strm \<Rightarrow> (Ret [(''streamID'', GetStreamID strm)], w2))"

section \<open>A Streamer to run the handlers on\<close>

text \<open>
  Modelled from the spec: the Streamer (\<open>streaming.Streamer\<close>) is not part of the sources
  at hand. The specification describes it as the registry of network streams and of
  subscriptions: \<open>AddNewNetworkStream\<close> creates a stream at an address (a new stream
  every time), \<open>GetNetworkStream\<close> looks one up, \<open>SubscribeToHLSStream\<close> binds a buffer
  to an address and a subscriber, \<open>GetHLSMuxer\<close> looks that buffer up and
  \<open>UnsubscribeToHLSStream\<close> removes it. \<open>made\<close> counts the objects made so far and
  numbers them; \<open>polled\<close> counts the playlist reads.
\<close>

record Streamer =
  networkStreams :: "StreamID \<rightharpoonup> NetworkStream"
  hlsSubscribers :: "StreamID \<times> string \<rightharpoonup> HLSBuffer"
  rtmpSubscribers :: "StreamID \<times> string \<rightharpoonup> Queue"
  made :: nat
  polled :: nat

text \<open>
  The behaviour of the rest of the system is given by parameters: from which playlist read
  on the buffers are ready (\<open>None\<close>: never), by how much each pause overshoots, and how the
  copy ends (\<open>None\<close>: it does not).
\<close>

definition specStreamer ::
  "NodeID \<Rightarrow> string \<Rightarrow> nat option \<Rightarrow> nat \<Rightarrow> error option option \<Rightarrow> Streamer Collab" where
  "specStreamer self sep readyFrom over copyEnd =
     \<lparr> SelfAddress = self,
       SplitComponents = specSplitComponents sep,
       MakeStreamID = specMakeStreamID sep,
       RandomStreamID = (\<lambda>s. (replicate (Suc (made s)) CHR ''r'', s\<lparr>made := Suc (made s)\<rparr>)),
       Sprintf_x = (\<lambda>h. h),
       GetNetworkStream = (\<lambda>sid s. networkStreams s sid),
       AddNewNetworkStream = (\<lambda>sid fmt s.
         let strm = \<lparr>GetStreamID = sid, Format = fmt, serial = made s\<rparr>
         in ((Some strm, None),
             s\<lparr>networkStreams := (networkStreams s)(sid \<mapsto> strm), made := Suc (made s)\<rparr>)),
       GetHLSMuxer = (\<lambda>sid subID s. hlsSubscribers s (sid, subID)),
       NewHLSBuffer = (\<lambda>window cap s. (made s, s\<lparr>made := Suc (made s)\<rparr>)),
       SubscribeToHLSStream = (\<lambda>sid subID b s.
         (None, s\<lparr>hlsSubscribers := (hlsSubscribers s)((sid, subID) \<mapsto> b)\<rparr>)),
       UnsubscribeToHLSStream = (\<lambda>sid subID s.
         s\<lparr>hlsSubscribers := (hlsSubscribers s)((sid, subID) := None)\<rparr>),
       LatestPlaylist = (\<lambda>b s.
         (case readyFrom of
            None \<Rightarrow> Some (CollabError ''no playlist'')
          | Some n \<Rightarrow> if n \<le> polled s then None else Some (CollabError ''no playlist''),
          s\<lparr>polled := Suc (polled s)\<rparr>)),
       NewQueue = (\<lambda>s. (made s, s\<lparr>made := Suc (made s)\<rparr>)),
       SubscribeToRTMPStream = (\<lambda>sid subID q s.
         (None, s\<lparr>rtmpSubscribers := (rtmpSubscribers s)((sid, subID) \<mapsto> q)\<rparr>)),
       UnsubscribeToRTMPStream = (\<lambda>sid subID s.
         s\<lparr>rtmpSubscribers := (rtmpSubscribers s)((sid, subID) := None)\<rparr>),
       CopyFile = (\<lambda>q s. case copyEnd of None \<Rightarrow> None | Some e \<Rightarrow> Some (e, s)),
       ForwarderStream = (\<lambda>sid fmt s. s),
       ForwarderStopStream = (\<lambda>sid fmt s. s),
       LogBroadcast = (\<lambda>sid s. s),
       LogConsume = (\<lambda>sid s. s),
       Sleep = (\<lambda>d s. (over, s)) \<rparr>"

definition emptyStreamer :: Streamer where
  "emptyStreamer =
     \<lparr> networkStreams = Map.empty, hlsSubscribers = Map.empty, rtmpSubscribers = Map.empty,
       made = 0, polled = 0 \<rparr>"

definition startWorld :: "Streamer world" where
  "startWorld = \<lparr> ext = emptyStreamer, hlsSubTimer = Map.empty, clock = 0, calls = [] \<rparr>"

section \<open>Notions the properties are stated with\<close>

fun isForwarderStream :: "call \<Rightarrow> bool" where
  "isForwarderStream (CForwarderStream _ _) = True"
| "isForwarderStream _ = False"

fun isAddPackaged :: "call \<Rightarrow> bool" where
  "isAddPackaged (CAddNewNetworkStream _ HLS) = True"
| "isAddPackaged _ = False"




text \<open>An entry of the activity map is stale when its age is over the limit.\<close>

definition stale :: "int \<Rightarrow> 's world \<Rightarrow> StreamID \<Rightarrow> bool" where
  "stale limit w sid =
     (case hlsSubTimer w sid of None \<Rightarrow> False | Some t \<Rightarrow> clock w - t > limit)"

text \<open>The same collaborators, but \<open>AddNewNetworkStream\<close> hands back the error \<open>e\<close>.\<close>

definition withAddError :: "error option \<Rightarrow> 's Collab \<Rightarrow> 's Collab" where
  "withAddError e E =
     E\<lparr>AddNewNetworkStream :=
         (\<lambda>sid fmt s. ((fst (fst (AddNewNetworkStream E sid fmt s)), e),
                       snd (AddNewNetworkStream E sid fmt s)))\<rparr>"

text \<open>
  Settings of node \<open>nodeA\<close> with separator \<open>0\<close>: playlists never ready and pauses
  exact; playlists never ready and every pause nine seconds too long; playlists ready at
  once; playlists ready from the second read on; playlists never ready and every pause
  one nanosecond too long; and a copy that ends with an error.
\<close>

definition neverReady :: "Streamer Collab" where
  "neverReady = specStreamer ''nodeA'' ''0'' None 0 None"


definition readyAtOnce :: "Streamer Collab" where
  "readyAtOnce = specStreamer ''nodeA'' ''0'' (Some 0) 0 None"



definition copyEnds :: "Streamer Collab" where
  "copyEnds = specStreamer ''nodeA'' ''0'' None 0 (Some (Some (CollabError ''EOF'')))"


text \<open>
  A state at second 25 with two watched streams: \<open>nodeB0old\<close> was last read at second 0
  and \<open>nodeB0new\<close> at second 15.
\<close>

definition watchedWorld :: "Streamer world" where
  "watchedWorld =
     \<lparr> ext = emptyStreamer
         \<lparr>hlsSubscribers := [(''nodeB0old'', ''local'') \<mapsto> 0, (''nodeB0new'', ''local'') \<mapsto> 1],
          made := 2\<rparr>,
       hlsSubTimer = [''nodeB0old'' \<mapsto> 0, ''nodeB0new'' \<mapsto> 15000000000],
       clock = 25000000000,
       calls = [] \<rparr>"

section \<open>Properties of address parsing\<close>

lemma FindString_stream_prefix:
  "FindString (''/stream/'' @ s) = ''/stream/'' @ takeWhile alnum s"
  by simp

lemma alnum_not_slash: "alnum c \<Longrightarrow> c \<noteq> CHR ''/''"
  by (auto simp: alnum_def isAlpha_def isDigit_def)

lemma Replace_no_slash:
  "\<forall>c\<in>set s. c \<noteq> CHR ''/'' \<Longrightarrow> Replace ''/stream/'' new s = s"
  by (induction s) auto

lemma parseStreamID_stream_prefix:
  "parseStreamID (''/stream/'' @ s) = takeWhile alnum s"
proof -
  have "\<forall>c\<in>set (takeWhile alnum s). c \<noteq> CHR ''/''"
    by (auto dest: set_takeWhileD alnum_not_slash)
  then have "Replace ''/stream/'' [] (takeWhile alnum s) = takeWhile alnum s"
    by (rule Replace_no_slash)
  then show ?thesis
    by (simp add: parseStreamID_def)
qed

lemma parseStreamID_alnum:
  "\<forall>c\<in>set s. alnum c \<Longrightarrow> parseStreamID (''/stream/'' @ s) = s"
proof -
  assume "\<forall>c\<in>set s. alnum c"
  then have "takeWhile alnum s = s"
    by (simp add: takeWhile_eq_all_conv)
  then show ?thesis
    by (simp only: parseStreamID_stream_prefix)
qed

lemma splitAtSep_first:
  "sep \<noteq> [] \<Longrightarrow> hd sep \<notin> set owner \<Longrightarrow>
   splitAtSep sep acc (owner @ sep @ localID) = Some (rev acc @ owner, localID)"
proof (induction owner arbitrary: acc)
  case Nil
  then show ?case by (cases sep) auto
next
  case (Cons a owner)
  from Cons.prems have "\<not> prefix sep (a # owner @ sep @ localID)"
    by (cases sep) auto
  with Cons show ?case by simp
qed

lemma specSplit_Make:
  "sep \<noteq> [] \<Longrightarrow> hd sep \<notin> set owner \<Longrightarrow>
   specSplitComponents sep (specMakeStreamID sep owner localID) = (owner, localID)"
  by (simp add: specSplitComponents_def specMakeStreamID_def splitAtSep_first)

section \<open>Properties of the HLS playback handler\<close>

lemma getHLSBuffer_no_forward:
  "filter isForwarderStream (calls (snd (getHLSBuffer E strmID w))) = filter isForwarderStream (calls w)"
  by (simp add: getHLSBuffer_def logCall_def Let_def split: option.splits prod.splits)

lemma pollStep_no_forward:
  "pollStep E strmID b startTime w = Inl (r, w') \<Longrightarrow>
     filter isForwarderStream (calls w') = filter isForwarderStream (calls w)"
  "pollStep E strmID b startTime w = Inr w' \<Longrightarrow>
     filter isForwarderStream (calls w') = filter isForwarderStream (calls w)"
  by (auto simp: pollStep_def sleep_def logCall_def Let_def split: option.splits prod.splits if_splits)

lemma pollLoop_no_forward:
  "filter isForwarderStream (calls (snd (pollLoop E strmID b startTime w))) = filter isForwarderStream (calls w)"
proof (induction E strmID b startTime w rule: pollLoop.induct)
  case (1 E strmID b startTime w)
  show ?case
  proof (cases "pollStep E strmID b startTime w")
    case (Inl r)
    then show ?thesis
      using pollStep_no_forward(1) [of E strmID b startTime w "fst r" "snd r"]
      by (simp add: pollLoop.simps [of E strmID b startTime w])
  next
    case (Inr w')
    then show ?thesis
      using pollStep_no_forward(2) [of E strmID b startTime w w'] "1.IH" [of w']
      by (simp add: pollLoop.simps [of E strmID b startTime w])
  qed
qed













lemma pollStep_timer_other:
  "k \<noteq> strmID \<Longrightarrow> pollStep E strmID b startTime w = Inl (r, w') \<Longrightarrow> hlsSubTimer w' k = hlsSubTimer w k"
  "pollStep E strmID b startTime w = Inr w' \<Longrightarrow> hlsSubTimer w' = hlsSubTimer w"
  by (auto simp: pollStep_def sleep_def logCall_def Let_def split: option.splits prod.splits if_splits)

lemma pollLoop_timer_other:
  "k \<noteq> strmID \<Longrightarrow> hlsSubTimer (snd (pollLoop E strmID b startTime w)) k = hlsSubTimer w k"
proof (induction E strmID b startTime w rule: pollLoop.induct)
  case (1 E strmID b startTime w)
  show ?case
  proof (cases "pollStep E strmID b startTime w")
    case (Inl r)
    then show ?thesis
      using pollStep_timer_other(1) [OF "1.prems", of E b startTime w "fst r" "snd r"]
      by (simp add: pollLoop.simps [of E strmID b startTime w])
  next
    case (Inr w')
    then show ?thesis
      using pollStep_timer_other(2) [of E strmID b startTime w w'] "1.IH" [OF Inr "1.prems"]
      by (simp add: pollLoop.simps [of E strmID b startTime w])
  qed
qed

lemma spec_pollStep_subs:
  "pollStep (specStreamer self sep rf over ce) strmID b startTime w = Inl (r, w') \<Longrightarrow>
     hlsSubscribers (ext w') = hlsSubscribers (ext w)"
  "pollStep (specStreamer self sep rf over ce) strmID b startTime w = Inr w' \<Longrightarrow>
     hlsSubscribers (ext w') = hlsSubscribers (ext w)"
  by (auto simp: pollStep_def sleep_def logCall_def specStreamer_def Let_def
      split: option.splits prod.splits if_splits)

lemma spec_pollLoop_subs:
  "E = specStreamer self sep rf over ce \<Longrightarrow>
   hlsSubscribers (ext (snd (pollLoop E strmID b startTime w))) = hlsSubscribers (ext w)"
proof (induction E strmID b startTime w rule: pollLoop.induct)
  case (1 E strmID b startTime w)
  show ?case
  proof (cases "pollStep E strmID b startTime w")
    case (Inl r)
    then show ?thesis
      using spec_pollStep_subs(1) [of self sep rf over ce strmID b startTime w "fst r" "snd r"] "1.prems"
      by (simp add: pollLoop.simps [of "specStreamer self sep rf over ce" strmID b startTime w])
  next
    case (Inr w')
    then show ?thesis
      using spec_pollStep_subs(2) [of self sep rf over ce strmID b startTime w w'] "1.IH" [OF Inr "1.prems"] "1.prems"
      by (simp add: pollLoop.simps [of "specStreamer self sep rf over ce" strmID b startTime w])
  qed
qed

lemma spec_getHLSBuffer:
  assumes "getHLSBuffer (specStreamer self sep rf over ce) strmID w = (r, w3)"
  shows "hlsSubTimer w3 = hlsSubTimer w \<and> (\<exists>b. r = Inr b)
       \<and> hlsSubscribers (ext w3) (strmID, ''local'') \<noteq> None
       \<and> (\<forall>k. hlsSubscribers (ext w) k \<noteq> None \<longrightarrow> hlsSubscribers (ext w3) k \<noteq> None)"
  using assms
  by (auto simp: getHLSBuffer_def specStreamer_def logCall_def Let_def split: option.splits prod.splits)

lemma spec_HandleHLSPlay_inv:
  assumes inv: "\<forall>sid. hlsSubTimer w sid \<noteq> None \<longrightarrow> hlsSubscribers (ext w) (sid, ''local'') \<noteq> None"
  shows "\<forall>sid. hlsSubTimer (snd (HandleHLSPlay (specStreamer self sep rf over ce) reqPath w)) sid \<noteq> None \<longrightarrow>
           hlsSubscribers (ext (snd (HandleHLSPlay (specStreamer self sep rf over ce) reqPath w))) (sid, ''local'') \<noteq> None"
proof -
  let ?E = "specStreamer self sep rf over ce"
  let ?sid = "parseStreamID reqPath"
  obtain nodeID streamID where sp: "SplitComponents ?E ?sid = (nodeID, streamID)"
    by (cases "SplitComponents ?E ?sid")
  show ?thesis
  proof (cases "?sid = [] \<or> streamID = []")
    case True
    then show ?thesis using inv sp by (auto simp: HandleHLSPlay_def Let_def)
  next
    case valid: False
    let ?w1 = "logCall (CGetNetworkStream ?sid) w"
    show ?thesis
    proof (cases "GetNetworkStream ?E ?sid (ext w) = None \<and> SelfAddress ?E = nodeID")
      case True
      then have "HandleHLSPlay ?E reqPath w = (Inl ErrNotFound, ?w1)"
        using valid sp by (auto simp: HandleHLSPlay_def Let_def)
      then show ?thesis using inv by (simp add: logCall_def)
    next
      case False
      let ?w2 = "if GetNetworkStream ?E ?sid (ext w) = None then forwarderStream ?E ?sid HLS ?w1 else ?w1"
      have w2: "hlsSubTimer ?w2 = hlsSubTimer w" "hlsSubscribers (ext ?w2) = hlsSubscribers (ext w)"
        by (simp_all add: forwarderStream_def logCall_def specStreamer_def)
      obtain r w3 where g: "getHLSBuffer ?E ?sid ?w2 = (r, w3)"
        by (cases "getHLSBuffer ?E ?sid ?w2")
      from spec_getHLSBuffer [OF g] obtain b where
        r: "r = Inr b" and t3: "hlsSubTimer w3 = hlsSubTimer w"
        and s3: "hlsSubscribers (ext w3) (?sid, ''local'') \<noteq> None"
        and k3: "\<forall>k. hlsSubscribers (ext w) k \<noteq> None \<longrightarrow> hlsSubscribers (ext w3) k \<noteq> None"
        using w2 by auto
      have eq: "HandleHLSPlay ?E reqPath w = pollLoop ?E ?sid b (clock w3) w3"
        using valid sp False g r by (auto simp: HandleHLSPlay_def Let_def)
      let ?w' = "snd (pollLoop ?E ?sid b (clock w3) w3)"
      have subs: "hlsSubscribers (ext ?w') = hlsSubscribers (ext w3)"
        by (rule spec_pollLoop_subs [OF refl])
      show ?thesis
        unfolding eq
      proof (intro allI impI)
        fix sid assume a: "hlsSubTimer ?w' sid \<noteq> None"
        show "hlsSubscribers (ext ?w') (sid, ''local'') \<noteq> None"
        proof (cases "sid = ?sid")
          case True
          then show ?thesis using s3 subs by simp
        next
          case False
          then have "hlsSubTimer ?w' sid = hlsSubTimer w sid"
            using pollLoop_timer_other [of sid ?sid ?E b "clock w3" w3] t3 by simp
          with a inv k3 subs show ?thesis by auto
        qed
      qed
    qed
  qed
qed

section \<open>Properties of the reaper\<close>

lemma reapEntry_stale:
  "stale limit w sid \<Longrightarrow>
   reapEntry E limit sid w =
     (forwarderStopStream E sid HLS (unsubscribeToHLSStream E sid ''local'' w))
       \<lparr>hlsSubTimer := (hlsSubTimer w)(sid := None)\<rparr>"
  by (auto simp: stale_def reapEntry_def Let_def forwarderStopStream_def unsubscribeToHLSStream_def logCall_def
      split: option.splits)

lemma reapEntry_fresh: "\<not> stale limit w sid \<Longrightarrow> reapEntry E limit sid w = w"
  by (auto simp: stale_def reapEntry_def split: option.splits)

lemma reapEntry_clock: "clock (reapEntry E limit sid w) = clock w"
  by (cases "stale limit w sid")
     (simp_all add: reapEntry_stale reapEntry_fresh forwarderStopStream_def unsubscribeToHLSStream_def logCall_def)

lemma reapEntry_timer:
  "hlsSubTimer (reapEntry E limit sid w) =
     (if stale limit w sid then (hlsSubTimer w)(sid := None) else hlsSubTimer w)"
  by (simp add: reapEntry_stale reapEntry_fresh)

lemma reapEntry_calls:
  "calls (reapEntry E limit sid w) =
     calls w @ (if stale limit w sid
                then [CUnsubscribeToHLSStream sid ''local'', CForwarderStopStream sid HLS] else [])"
  by (simp add: reapEntry_stale reapEntry_fresh forwarderStopStream_def unsubscribeToHLSStream_def logCall_def)

lemma stale_reapEntry_other:
  "sid' \<noteq> sid \<Longrightarrow> stale limit (reapEntry E limit sid w) sid' = stale limit w sid'"
  by (simp add: stale_def reapEntry_timer reapEntry_clock split: option.splits)

lemma sweep_clock: "clock (sweep E limit order w) = clock w"
  unfolding sweep_def by (induction order arbitrary: w) (simp_all add: reapEntry_clock)

lemma sweep_timer:
  "distinct order \<Longrightarrow>
   hlsSubTimer (sweep E limit order w) sid =
     (if sid \<in> set order \<and> stale limit w sid then None else hlsSubTimer w sid)"
  unfolding sweep_def
proof (induction order arbitrary: w)
  case Nil
  then show ?case by simp
next
  case (Cons a order)
  then show ?case
    by (auto simp: reapEntry_timer stale_reapEntry_other)
qed

lemma sweep_calls:
  "distinct order \<Longrightarrow>
   calls (sweep E limit order w) =
     calls w @ concat (map (\<lambda>sid. [CUnsubscribeToHLSStream sid ''local'', CForwarderStopStream sid HLS])
                        (filter (stale limit w) order))"
  unfolding sweep_def
proof (induction order arbitrary: w)
  case Nil
  then show ?case by simp
next
  case (Cons a order)
  have "filter (stale limit (reapEntry E limit a w)) order = filter (stale limit w) order"
  proof (rule filter_cong [OF refl])
    fix x assume "x \<in> set order"
    with Cons.prems have "x \<noteq> a" by auto
    then show "stale limit (reapEntry E limit a w) x = stale limit w x"
      by (rule stale_reapEntry_other)
  qed
  with Cons show ?case
    by (simp add: reapEntry_calls)
qed

lemma count_unsub_concat:
  "distinct xs \<Longrightarrow>
   count_list (concat (map (\<lambda>sid. [CUnsubscribeToHLSStream sid ''local'', CForwarderStopStream sid HLS]) xs))
      (CUnsubscribeToHLSStream sid subID) = (if sid \<in> set xs \<and> subID = ''local'' then 1 else 0)"
  by (induction xs) auto

lemma count_stop_concat:
  "distinct xs \<Longrightarrow>
   count_list (concat (map (\<lambda>sid. [CUnsubscribeToHLSStream sid ''local'', CForwarderStopStream sid HLS]) xs))
      (CForwarderStopStream sid fmt) = (if sid \<in> set xs \<and> fmt = HLS then 1 else 0)"
  by (induction xs) auto

lemma spec_reapEntry_inv:
  assumes inv: "\<forall>sid. hlsSubTimer w sid \<noteq> None \<longrightarrow> hlsSubscribers (ext w) (sid, ''local'') \<noteq> None"
  shows "\<forall>sid. hlsSubTimer (reapEntry (specStreamer self sep rf over ce) limit a w) sid \<noteq> None \<longrightarrow>
           hlsSubscribers (ext (reapEntry (specStreamer self sep rf over ce) limit a w)) (sid, ''local'') \<noteq> None"
  using inv
  by (auto simp: reapEntry_def specStreamer_def unsubscribeToHLSStream_def forwarderStopStream_def
        logCall_def Let_def split: option.splits)

lemma spec_sweep_inv:
  assumes inv: "\<forall>sid. hlsSubTimer w sid \<noteq> None \<longrightarrow> hlsSubscribers (ext w) (sid, ''local'') \<noteq> None"
  shows "\<forall>sid. hlsSubTimer (sweep (specStreamer self sep rf over ce) limit order w) sid \<noteq> None \<longrightarrow>
           hlsSubscribers (ext (sweep (specStreamer self sep rf over ce) limit order w)) (sid, ''local'') \<noteq> None"
  using inv unfolding sweep_def
proof (induction order arbitrary: w)
  case Nil
  then show ?case by simp
next
  case (Cons a order)
  show ?case
    using Cons.IH [OF spec_reapEntry_inv [OF Cons.prems]] by simp
qed

section \<open>Properties of the publish handler\<close>

lemma spec_getStream:
  assumes "parseStreamID (Path url) = raw" and "raw \<noteq> []"
    and "getStream (specStreamer self sep rf over ce) url w = (Ret (Inr (r, h)), w')"
  shows "networkStreams (ext w') raw \<noteq> None
       \<and> made (ext w) \<le> serial h \<and> serial h < made (ext w')
       \<and> Format h = HLS
       \<and> (\<forall>s. networkStreams (ext w) raw = Some s \<longrightarrow> r = s)
       \<and> (GetStreamID h \<noteq> raw \<longrightarrow> networkStreams (ext w') raw = Some r)
       \<and> calls w' = calls w @ [CGetNetworkStream raw]
                     @ (if networkStreams (ext w) raw = None then [CAddNewNetworkStream raw RTMP] else [])
                     @ [CAddNewNetworkStream (GetStreamID h) HLS,
                        CLogBroadcast (GetStreamID r), CLogBroadcast (GetStreamID h)]"
  using assms
  by (auto simp: getStream_def specStreamer_def addNewNetworkStream_def mintStreamID_def logCall_def Let_def
      split: prod.splits option.splits if_splits)

section \<open>Claims\<close>

subsection \<open>C8: an address survives the way through a request path\<close>

text \<open>
  C8, as amended. \<open>parseStreamID\<close> reads a request path, so the string form of an address
  has to follow \<^verbatim>\<open>/stream/\<close>, and it keeps letters and digits only. For every address
  \<open>a = Make(owner, local)\<close> whose string form consists of ASCII letters and digits, and
  in which the separator is not empty and does not begin with a character of the owner
  component, splitting the address parsed from the path \<^verbatim>\<open>/stream/\<close> followed by the
  string form of \<open>a\<close> gives back \<open>(owner, local)\<close>.
\<close>

theorem C8_roundtrip_through_path:
  assumes "sep \<noteq> []" and "hd sep \<notin> set owner"
    and "\<forall>c\<in>set (specMakeStreamID sep owner localID). alnum c"
  shows "specSplitComponents sep
           (parseStreamID (''/stream/'' @ specMakeStreamID sep owner localID))
         = (owner, localID)"
  using assms by (simp add: parseStreamID_alnum specSplit_Make del: append.simps)

text \<open>The amended C8 at owner \<open>nodeA\<close>, separator \<open>0\<close> and local id \<open>cam1\<close>.\<close>

theorem C8_roundtrip_through_path_witness:
  "''0'' \<noteq> [] \<and> hd ''0'' \<notin> set ''nodeA''
   \<and> list_all alnum (specMakeStreamID ''0'' ''nodeA'' ''cam1'')
   \<and> specSplitComponents ''0''
        (parseStreamID (''/stream/'' @ specMakeStreamID ''0'' ''nodeA'' ''cam1''))
      = (''nodeA'', ''cam1'')"
  using C8_roundtrip_through_path [of "''0''" "''nodeA''" "''cam1''"]
  by (simp add: specMakeStreamID_def alnum_def isAlpha_def isDigit_def)

text \<open>
  C8 as it is written fails: the string form of an address is not a request path, so
  \<open>parseStreamID\<close> finds no match in it and returns the empty address.
\<close>

theorem C8_string_form_is_not_a_path:
  "parseStreamID (specMakeStreamID ''0'' ''nodeA'' ''cam1'') = [] \<and>
   specSplitComponents ''0'' (parseStreamID (specMakeStreamID ''0'' ''nodeA'' ''cam1''))
     \<noteq> (''nodeA'', ''cam1'')"
  by (simp add: specMakeStreamID_def parseStreamID_def specSplitComponents_def)

subsection \<open>C1: forwarding when the stream is not known here\<close>

text \<open>
  C1, as amended. For every HLS playback request whose parsed address is not empty, whose
  local-stream component is not empty, and for which no network stream exists locally:
  if the owner-node component differs from this node's address, the handler calls
  \<open>Forwarder.Stream(addr, HLS)\<close> exactly once and goes on with the buffer lookup and the
  polling, whose outcome is its outcome; if the owner-node component is this node's
  address, it fails with \<open>ErrNotFound\<close> right after the lookup and calls the Forwarder
  not at all.
\<close>

theorem C1_forward_iff_not_owner:
  assumes "parseStreamID reqPath = strmID" and "strmID \<noteq> []"
    and "SplitComponents E strmID = (nodeID, streamID)" and "streamID \<noteq> []"
    and "GetNetworkStream E strmID (ext w) = None"
  shows "(nodeID \<noteq> SelfAddress E \<longrightarrow>
           HandleHLSPlay E reqPath w =
             (case getHLSBuffer E strmID
                     (forwarderStream E strmID HLS (logCall (CGetNetworkStream strmID) w)) of
                (Inl err, w3) \<Rightarrow> (Inl err, w3)
              | (Inr hlsBuffer, w3) \<Rightarrow> pollLoop E strmID hlsBuffer (clock w3) w3)
           \<and> filter isForwarderStream (calls (snd (HandleHLSPlay E reqPath w))) =
               filter isForwarderStream (calls w) @ [CForwarderStream strmID HLS])
       \<and> (nodeID = SelfAddress E \<longrightarrow>
           HandleHLSPlay E reqPath w = (Inl ErrNotFound, logCall (CGetNetworkStream strmID) w)
           \<and> filter isForwarderStream (calls (snd (HandleHLSPlay E reqPath w))) =
               filter isForwarderStream (calls w))"
proof (intro conjI impI)
  let ?w2 = "forwarderStream E strmID HLS (logCall (CGetNetworkStream strmID) w)"
  have fw: "filter isForwarderStream (calls ?w2) =
              filter isForwarderStream (calls w) @ [CForwarderStream strmID HLS]"
    by (simp add: forwarderStream_def logCall_def)
  {
    assume ne: "nodeID \<noteq> SelfAddress E"
    show eq: "HandleHLSPlay E reqPath w =
             (case getHLSBuffer E strmID ?w2 of
                (Inl err, w3) \<Rightarrow> (Inl err, w3)
              | (Inr hlsBuffer, w3) \<Rightarrow> pollLoop E strmID hlsBuffer (clock w3) w3)"
      using assms ne by (auto simp: HandleHLSPlay_def Let_def)
    have "filter isForwarderStream (calls (snd (HandleHLSPlay E reqPath w))) =
            filter isForwarderStream (calls ?w2)"
    proof (cases "getHLSBuffer E strmID ?w2")
      case (Pair r w3)
      have g: "filter isForwarderStream (calls w3) = filter isForwarderStream (calls ?w2)"
        using getHLSBuffer_no_forward [of E strmID ?w2] Pair by simp
      show ?thesis
      proof (cases r)
        case (Inl e)
        with Pair g eq show ?thesis by simp
      next
        case (Inr b)
        with Pair g eq pollLoop_no_forward [of E strmID b "clock w3" w3] show ?thesis by simp
      qed
    qed
    with fw show "filter isForwarderStream (calls (snd (HandleHLSPlay E reqPath w))) =
               filter isForwarderStream (calls w) @ [CForwarderStream strmID HLS]"
      by simp
  }
  {
    assume own: "nodeID = SelfAddress E"
    show nf: "HandleHLSPlay E reqPath w = (Inl ErrNotFound, logCall (CGetNetworkStream strmID) w)"
      using assms own by (auto simp: HandleHLSPlay_def Let_def)
    show "filter isForwarderStream (calls (snd (HandleHLSPlay E reqPath w))) =
               filter isForwarderStream (calls w)"
      unfolding nf by (simp add: logCall_def)
  }
qed

text \<open>
  The amended C1 on node \<open>nodeA\<close>: a request for \<open>nodeB0cam1\<close> is forwarded once and
  served, a request for the unknown stream \<open>nodeA0cam1\<close> of the node itself is not found.
\<close>

theorem C1_forward_iff_not_owner_witness:
  "parseStreamID ''/stream/nodeB0cam1'' = ''nodeB0cam1''
   \<and> SplitComponents readyAtOnce ''nodeB0cam1'' = (''nodeB'', ''cam1'')
   \<and> GetNetworkStream readyAtOnce ''nodeB0cam1'' (ext startWorld) = None
   \<and> ''nodeB'' \<noteq> SelfAddress readyAtOnce
   \<and> fst (HandleHLSPlay readyAtOnce ''/stream/nodeB0cam1'' startWorld) = Inr 0
   \<and> filter isForwarderStream (calls (snd (HandleHLSPlay readyAtOnce ''/stream/nodeB0cam1'' startWorld)))
       = [CForwarderStream ''nodeB0cam1'' HLS]
   \<and> parseStreamID ''/stream/nodeA0cam1'' = ''nodeA0cam1''
   \<and> SplitComponents readyAtOnce ''nodeA0cam1'' = (''nodeA'', ''cam1'')
   \<and> GetNetworkStream readyAtOnce ''nodeA0cam1'' (ext startWorld) = None
   \<and> ''nodeA'' = SelfAddress readyAtOnce
   \<and> HandleHLSPlay readyAtOnce ''/stream/nodeA0cam1'' startWorld
       = (Inl ErrNotFound, logCall (CGetNetworkStream ''nodeA0cam1'') startWorld)
   \<and> filter isForwarderStream (calls (snd (HandleHLSPlay readyAtOnce ''/stream/nodeA0cam1'' startWorld)))
       = []"
  using C1_forward_iff_not_owner
          [of "''/stream/nodeB0cam1''" "''nodeB0cam1''" readyAtOnce "''nodeB''" "''cam1''" startWorld]
        C1_forward_iff_not_owner
          [of "''/stream/nodeA0cam1''" "''nodeA0cam1''" readyAtOnce "''nodeA''" "''cam1''" startWorld]
  by (simp add: parseStreamID_def alnum_def isAlpha_def isDigit_def logCall_def specStreamer_def
        specSplitComponents_def specMakeStreamID_def startWorld_def emptyStreamer_def Let_def
        HandleHLSPlay_def getHLSBuffer_def pollStep_def sleep_def forwarderStream_def Second_def
        HLSWaitTime_def HLSBufferWindow_def HLSBufferCap_def readyAtOnce_def pollLoop.simps)

text \<open>
  C1 as it is written fails for an address without a local-stream component: \<open>abc\<close> is
  not empty, no stream of that name exists, its owner component is not this node, and
  the request ends at the validity check, before any lookup, with nothing forwarded.
\<close>

theorem C1_invalid_address_not_forwarded:
  "parseStreamID ''/stream/abc'' = ''abc''
   \<and> GetNetworkStream readyAtOnce ''abc'' (ext startWorld) = None
   \<and> fst (SplitComponents readyAtOnce ''abc'') \<noteq> SelfAddress readyAtOnce
   \<and> HandleHLSPlay readyAtOnce ''/stream/abc'' startWorld
       = (Inl (ErrorsNew ''Stream Not Found''), startWorld)
   \<and> filter isForwarderStream (calls (snd (HandleHLSPlay readyAtOnce ''/stream/abc'' startWorld))) = []"
  by (simp add: parseStreamID_def alnum_def isAlpha_def isDigit_def logCall_def specStreamer_def
        specSplitComponents_def specMakeStreamID_def startWorld_def emptyStreamer_def Let_def
        HandleHLSPlay_def readyAtOnce_def)

subsection \<open>C5: requests with an unusable address\<close>

text \<open>
  C5, as amended. For every HLS playback request whose parsed address is empty or whose
  address has an empty local-stream component, the handler fails with the error made by
  \<open>errors.New("Stream Not Found")\<close> (which is not the value \<open>ErrNotFound\<close>) and does no
  stream lookup, subscription or forwarding: state and trace stay as they were. The
  owner-node component is not looked at in this check.
\<close>

theorem C5_unusable_address_rejected:
  assumes "parseStreamID reqPath = [] \<or> snd (SplitComponents E (parseStreamID reqPath)) = []"
  shows "HandleHLSPlay E reqPath w = (Inl (ErrorsNew ''Stream Not Found''), w)"
  using assms by (auto simp: HandleHLSPlay_def Let_def split: prod.splits)

text \<open>The amended C5 for a path without the stream shape and for the address \<open>abc\<close>.\<close>

theorem C5_unusable_address_rejected_witness:
  "parseStreamID ''/nothing'' = []
   \<and> HandleHLSPlay readyAtOnce ''/nothing'' startWorld
       = (Inl (ErrorsNew ''Stream Not Found''), startWorld)
   \<and> snd (SplitComponents readyAtOnce (parseStreamID ''/stream/abc'')) = []
   \<and> HandleHLSPlay readyAtOnce ''/stream/abc'' startWorld
       = (Inl (ErrorsNew ''Stream Not Found''), startWorld)"
  using C5_unusable_address_rejected [of "''/nothing''" readyAtOnce startWorld]
        C5_unusable_address_rejected [of "''/stream/abc''" readyAtOnce startWorld]
  by (simp add: parseStreamID_def alnum_def isAlpha_def isDigit_def logCall_def specStreamer_def
        specSplitComponents_def specMakeStreamID_def startWorld_def emptyStreamer_def Let_def
        HandleHLSPlay_def readyAtOnce_def)

text \<open>
  C5 as it is written fails twice. The address \<open>0cam1\<close> has an empty owner-node
  component and the request is served: the stream is looked up, forwarded and subscribed
  to, and the buffer is returned. And the error of a rejected request is not
  \<open>ErrNotFound\<close>.
\<close>

theorem C5_empty_owner_is_served:
  "fst (SplitComponents readyAtOnce (parseStreamID ''/stream/0cam1'')) = []
   \<and> fst (HandleHLSPlay readyAtOnce ''/stream/0cam1'' startWorld) = Inr 0
   \<and> calls (snd (HandleHLSPlay readyAtOnce ''/stream/0cam1'' startWorld))
       = [CGetNetworkStream ''0cam1'', CForwarderStream ''0cam1'' HLS,
          CGetHLSMuxer ''0cam1'' ''local'', CNewHLSBuffer 5 43200,
          CSubscribeToHLSStream ''0cam1'' ''local'' 0, CLatestPlaylist 0]
   \<and> fst (HandleHLSPlay readyAtOnce ''/nothing'' startWorld) \<noteq> Inl ErrNotFound"
  by (simp add: parseStreamID_def alnum_def isAlpha_def isDigit_def logCall_def specStreamer_def
        specSplitComponents_def specMakeStreamID_def startWorld_def emptyStreamer_def Let_def
        HandleHLSPlay_def getHLSBuffer_def pollStep_def sleep_def forwarderStream_def Second_def
        HLSWaitTime_def HLSBufferWindow_def HLSBufferCap_def readyAtOnce_def pollLoop.simps)

subsection \<open>C4: polling for the playlist\<close>




subsection \<open>C2: what a sweep of the reaper does\<close>

text \<open>
  C2. For every state of the activity map and every sweep of the reaper over it (the
  keys coming in any order, each once), with any limit, in particular the twenty seconds
  the worker is started with: an entry whose age is over the limit is removed from the
  map, with exactly one \<open>UnsubscribeToHLSStream\<close> call for its address and subscriber
  \<open>local\<close> and exactly one \<open>Forwarder.StopStream\<close> call for its address and format HLS;
  an entry whose age is within the limit stays as it is and neither call is made for its
  address. No other unsubscribe or stop call is made.
\<close>

theorem C2_sweep_evicts_stale_entries:
  assumes "distinct order" and "set order = dom (hlsSubTimer w)"
  shows "hlsSubTimer (sweep E limit order w) sid
           = (if stale limit w sid then None else hlsSubTimer w sid)
    \<and> count_list (calls (sweep E limit order w)) (CUnsubscribeToHLSStream sid subID)
        = count_list (calls w) (CUnsubscribeToHLSStream sid subID)
          + (if stale limit w sid \<and> subID = ''local'' then 1 else 0)
    \<and> count_list (calls (sweep E limit order w)) (CForwarderStopStream sid fmt)
        = count_list (calls w) (CForwarderStopStream sid fmt)
          + (if stale limit w sid \<and> fmt = HLS then 1 else 0)"
proof -
  have in_order: "stale limit w sid \<Longrightarrow> sid \<in> set order"
    using assms(2) by (auto simp: stale_def split: option.splits)
  have "distinct (filter (stale limit w) order)" using assms(1) by simp
  then show ?thesis
    using in_order assms(1)
    by (auto simp: sweep_timer sweep_calls count_unsub_concat count_stop_concat)
qed

text \<open>
  C2 at second 25 with the limit of twenty seconds: the entry last read at second 0 is
  evicted with one call of each kind, the entry last read at second 15 is kept.
\<close>

theorem C2_sweep_evicts_stale_entries_witness:
  "distinct [''nodeB0new'', ''nodeB0old'']
   \<and> set [''nodeB0new'', ''nodeB0old''] = dom (hlsSubTimer watchedWorld)
   \<and> stale HLSUnsubscribeWaitLimit watchedWorld ''nodeB0old''
   \<and> hlsSubTimer (sweep neverReady HLSUnsubscribeWaitLimit [''nodeB0new'', ''nodeB0old''] watchedWorld)
        ''nodeB0old'' = None
   \<and> count_list (calls (sweep neverReady HLSUnsubscribeWaitLimit [''nodeB0new'', ''nodeB0old''] watchedWorld))
        (CUnsubscribeToHLSStream ''nodeB0old'' ''local'') = 1
   \<and> count_list (calls (sweep neverReady HLSUnsubscribeWaitLimit [''nodeB0new'', ''nodeB0old''] watchedWorld))
        (CForwarderStopStream ''nodeB0old'' HLS) = 1
   \<and> \<not> stale HLSUnsubscribeWaitLimit watchedWorld ''nodeB0new''
   \<and> hlsSubTimer (sweep neverReady HLSUnsubscribeWaitLimit [''nodeB0new'', ''nodeB0old''] watchedWorld)
        ''nodeB0new'' = Some 15000000000
   \<and> count_list (calls (sweep neverReady HLSUnsubscribeWaitLimit [''nodeB0new'', ''nodeB0old''] watchedWorld))
        (CUnsubscribeToHLSStream ''nodeB0new'' ''local'') = 0
   \<and> count_list (calls (sweep neverReady HLSUnsubscribeWaitLimit [''nodeB0new'', ''nodeB0old''] watchedWorld))
        (CForwarderStopStream ''nodeB0new'' HLS) = 0"
  using C2_sweep_evicts_stale_entries
          [of "[''nodeB0new'', ''nodeB0old'']" watchedWorld neverReady HLSUnsubscribeWaitLimit
              "''nodeB0old''" "''local''" HLS]
        C2_sweep_evicts_stale_entries
          [of "[''nodeB0new'', ''nodeB0old'']" watchedWorld neverReady HLSUnsubscribeWaitLimit
              "''nodeB0new''" "''local''" HLS]
  by (simp add: watchedWorld_def stale_def HLSUnsubscribeWaitLimit_def Second_def)

subsection \<open>C3: activity entries and buffer subscriptions\<close>

text \<open>
  C3, as amended. With a Streamer that keeps the subscriptions as the specification
  describes, a playback request and a sweep of the reaper, each run without the other
  in between, keep this: every address that has an entry in the activity map has an
  active local HLS buffer subscription. The handler writes the entry only after it has
  found or made the subscription, and the reaper removes the entry together with the
  subscription. The converse is not kept: from the moment a subscription is made until
  a playlist read succeeds there is a subscription without an entry.
\<close>

theorem C3_entry_has_subscription:
  assumes "\<forall>sid. hlsSubTimer w sid \<noteq> None \<longrightarrow> hlsSubscribers (ext w) (sid, ''local'') \<noteq> None"
  shows "(\<forall>sid. hlsSubTimer (snd (HandleHLSPlay (specStreamer self sep rf over ce) reqPath w)) sid \<noteq> None \<longrightarrow>
            hlsSubscribers (ext (snd (HandleHLSPlay (specStreamer self sep rf over ce) reqPath w)))
              (sid, ''local'') \<noteq> None)
       \<and> (\<forall>sid. hlsSubTimer (sweep (specStreamer self sep rf over ce) limit order w) sid \<noteq> None \<longrightarrow>
            hlsSubscribers (ext (sweep (specStreamer self sep rf over ce) limit order w))
              (sid, ''local'') \<noteq> None)"
  using spec_HandleHLSPlay_inv [OF assms] spec_sweep_inv [OF assms] by blast

text \<open>
  The amended C3 on the state with two watched streams: after a request for a third
  stream all three entries have their subscription, and after a sweep the entry that
  is left has its subscription.
\<close>

theorem C3_entry_has_subscription_witness:
  "hlsSubTimer watchedWorld ''nodeB0old'' \<noteq> None
   \<and> hlsSubscribers (ext watchedWorld) (''nodeB0old'', ''local'') \<noteq> None
   \<and> hlsSubTimer watchedWorld ''nodeB0new'' \<noteq> None
   \<and> hlsSubscribers (ext watchedWorld) (''nodeB0new'', ''local'') \<noteq> None
   \<and> hlsSubTimer (snd (HandleHLSPlay readyAtOnce ''/stream/nodeB0cam1'' watchedWorld)) ''nodeB0cam1'' \<noteq> None
   \<and> hlsSubscribers (ext (snd (HandleHLSPlay readyAtOnce ''/stream/nodeB0cam1'' watchedWorld)))
        (''nodeB0cam1'', ''local'') \<noteq> None
   \<and> hlsSubscribers (ext (snd (HandleHLSPlay readyAtOnce ''/stream/nodeB0cam1'' watchedWorld)))
        (''nodeB0old'', ''local'') \<noteq> None
   \<and> hlsSubTimer (sweep readyAtOnce HLSUnsubscribeWaitLimit [''nodeB0new'', ''nodeB0old''] watchedWorld)
        ''nodeB0new'' \<noteq> None
   \<and> hlsSubscribers (ext (sweep readyAtOnce HLSUnsubscribeWaitLimit [''nodeB0new'', ''nodeB0old''] watchedWorld))
        (''nodeB0new'', ''local'') \<noteq> None"
  using C3_entry_has_subscription
          [of watchedWorld "''nodeA''" "''0''" "Some 0" 0 None "''/stream/nodeB0cam1''"
              HLSUnsubscribeWaitLimit "[''nodeB0new'', ''nodeB0old'']"]
  by (simp add: parseStreamID_def alnum_def isAlpha_def isDigit_def logCall_def specStreamer_def
        specSplitComponents_def specMakeStreamID_def startWorld_def emptyStreamer_def Let_def
        HandleHLSPlay_def getHLSBuffer_def pollStep_def sleep_def forwarderStream_def Second_def
        HLSWaitTime_def HLSBufferWindow_def HLSBufferCap_def
        reapEntry_def sweep_def unsubscribeToHLSStream_def forwarderStopStream_def
        HLSUnsubscribeWaitLimit_def watchedWorld_def readyAtOnce_def pollLoop.simps)

text \<open>
  C3 as it is written fails: a request that makes a buffer subscription and times out
  leaves the subscription active and no entry for the address in the activity map.
\<close>

theorem C3_timed_out_subscription_has_no_entry:
  "fst (HandleHLSPlay neverReady ''/stream/nodeB0cam1'' startWorld) = Inl ErrNotFound
   \<and> hlsSubscribers (ext (snd (HandleHLSPlay neverReady ''/stream/nodeB0cam1'' startWorld)))
        (''nodeB0cam1'', ''local'') = Some 0
   \<and> hlsSubTimer (snd (HandleHLSPlay neverReady ''/stream/nodeB0cam1'' startWorld)) ''nodeB0cam1''
        = None"
  by (simp add: parseStreamID_def alnum_def isAlpha_def isDigit_def logCall_def specStreamer_def
        specSplitComponents_def specMakeStreamID_def startWorld_def emptyStreamer_def Let_def
        HandleHLSPlay_def getHLSBuffer_def pollStep_def sleep_def forwarderStream_def Second_def
        HLSWaitTime_def HLSBufferWindow_def HLSBufferCap_def neverReady_def pollLoop.simps)

subsection \<open>C6: publishing to an address of another node\<close>

text \<open>
  C6. For every publish request whose path gives a raw address with an owner-node
  component other than this node's address, the handler returns \<open>ErrStreamPublish\<close> and
  the state is what it was: no call on the Streamer is made, so no network stream, raw
  or packaged, is created.
\<close>

theorem C6_foreign_raw_address_rejected:
  assumes "parseStreamID (Path url) \<noteq> []"
    and "fst (SplitComponents E (parseStreamID (Path url))) \<noteq> SelfAddress E"
  shows "getStream E url w = (Ret (Inl ErrStreamPublish), w)"
proof (cases "SplitComponents E (parseStreamID (Path url))")
  case (Pair nodeID rest)
  with assms show ?thesis
    by (simp add: getStream_def Let_def)
qed

text \<open>C6 on node \<open>nodeA\<close> for the raw address \<open>nodeB0cam1\<close>.\<close>

theorem C6_foreign_raw_address_rejected_witness:
  "parseStreamID (Path \<lparr>Path = ''/stream/nodeB0cam1'', hlsStrmIDParam = []\<rparr>) \<noteq> []
   \<and> fst (SplitComponents neverReady
            (parseStreamID (Path \<lparr>Path = ''/stream/nodeB0cam1'', hlsStrmIDParam = []\<rparr>)))
        \<noteq> SelfAddress neverReady
   \<and> getStream neverReady \<lparr>Path = ''/stream/nodeB0cam1'', hlsStrmIDParam = []\<rparr> startWorld
        = (Ret (Inl ErrStreamPublish), startWorld)"
  using C6_foreign_raw_address_rejected
          [of "\<lparr>Path = ''/stream/nodeB0cam1'', hlsStrmIDParam = []\<rparr>" neverReady startWorld]
  by (simp add: parseStreamID_def neverReady_def specStreamer_def specSplitComponents_def
        alnum_def isAlpha_def isDigit_def)

subsection \<open>C9: the end of an RTMP playback\<close>

text \<open>
  C9. For every RTMP playback request whose subscription succeeds: when the copy ends,
  with an error or with none, the handler calls \<open>UnsubscribeToRTMPStream\<close> for the address
  and the subscriber id of the request, then \<open>Forwarder.StopStream\<close> for the address and
  format RTMP, whose outcome it does not look at, and returns what the copy returned.
\<close>

theorem C9_teardown_after_copy:
  assumes "parseStreamID reqPath = strmID" and "strmID \<noteq> []"
    and "rtmpSubscribe E strmID w = (None, q, subID, w1)"
    and "CopyFile E q (ext w1) = Some (copyErr, s)"
  shows "HandleRTMPPlay E reqPath w =
           Some (copyErr,
                 forwarderStopStream E strmID RTMP
                   (unsubscribeToRTMPStream E strmID subID
                      (logCall (CCopyFile q) (w1\<lparr>ext := s\<rparr>))))
       \<and> calls (forwarderStopStream E strmID RTMP
                   (unsubscribeToRTMPStream E strmID subID
                      (logCall (CCopyFile q) (w1\<lparr>ext := s\<rparr>))))
           = calls w1 @ [CCopyFile q, CUnsubscribeToRTMPStream strmID subID,
                         CForwarderStopStream strmID RTMP]"
  using assms
  by (simp add: HandleRTMPPlay_def rtmpCopy_def parseStreamID_def Let_def
        forwarderStopStream_def unsubscribeToRTMPStream_def logCall_def)

text \<open>C9 on node \<open>nodeA\<close> for a copy that ends with an error.\<close>

theorem C9_teardown_after_copy_witness:
  "parseStreamID ''/stream/nodeB0cam1'' = ''nodeB0cam1''
   \<and> fst (rtmpSubscribe copyEnds ''nodeB0cam1'' startWorld) = None
   \<and> fst (snd (rtmpSubscribe copyEnds ''nodeB0cam1'' startWorld)) = 0
   \<and> fst (snd (snd (rtmpSubscribe copyEnds ''nodeB0cam1'' startWorld))) = ''rr''
   \<and> map_option fst (CopyFile copyEnds 0
        (ext (snd (snd (snd (rtmpSubscribe copyEnds ''nodeB0cam1'' startWorld))))))
        = Some (Some (CollabError ''EOF''))
   \<and> map_option fst (HandleRTMPPlay copyEnds ''/stream/nodeB0cam1'' startWorld)
        = Some (Some (CollabError ''EOF''))
   \<and> map_option (calls \<circ> snd) (HandleRTMPPlay copyEnds ''/stream/nodeB0cam1'' startWorld)
        = Some [CLogConsume ''nodeB0cam1'', CGetNetworkStream ''nodeB0cam1'',
                CForwarderStream ''nodeB0cam1'' RTMP,
                CSubscribeToRTMPStream ''nodeB0cam1'' ''rr'' 0, CCopyFile 0,
                CUnsubscribeToRTMPStream ''nodeB0cam1'' ''rr'',
                CForwarderStopStream ''nodeB0cam1'' RTMP]"
  using C9_teardown_after_copy
          [of "''/stream/nodeB0cam1''" "''nodeB0cam1''" copyEnds startWorld 0 "''rr''"
              "snd (snd (snd (rtmpSubscribe copyEnds ''nodeB0cam1'' startWorld)))"
              "Some (CollabError ''EOF'')"
              "ext (snd (snd (snd (rtmpSubscribe copyEnds ''nodeB0cam1'' startWorld))))"]
  by (simp add: parseStreamID_def alnum_def isAlpha_def isDigit_def logCall_def specStreamer_def
        specSplitComponents_def specMakeStreamID_def startWorld_def emptyStreamer_def Let_def
        HandleRTMPPlay_def rtmpSubscribe_def rtmpCopy_def forwarderStream_def forwarderStopStream_def
        unsubscribeToRTMPStream_def copyEnds_def)

subsection \<open>C10: the createStream endpoint\<close>

text \<open>
  C10. For every request to \<open>/createStream\<close>: the handler does not look at the error that
  \<open>AddNewNetworkStream\<close> returns (whatever error comes back with the same stream, the
  outcome is the same); it reads the id through the returned stream pointer, so it
  panics exactly when that pointer is nil; and otherwise it answers with the stream's id
  under the key \<open>streamID\<close>: there is no branch for a creation that failed.
\<close>

theorem C10_createStream_ignores_error:
  "createStream (withAddError e E) w = createStream E w
   \<and> (fst (createStream E w) = PanicNilDeref \<longleftrightarrow>
        fst (fst (AddNewNetworkStream E (fst (mintStreamID E w)) RTMP
                    (ext (snd (mintStreamID E w))))) = None)
   \<and> fst (createStream E w) =
        (case fst (fst (AddNewNetworkStream E (fst (mintStreamID E w)) RTMP
                          (ext (snd (mintStreamID E w))))) of
           None \<Rightarrow> PanicNilDeref
         | Some strm \<Rightarrow> Ret [(''streamID'', GetStreamID strm)])"
  by (auto simp: createStream_def withAddError_def addNewNetworkStream_def mintStreamID_def Let_def
        split: prod.splits option.splits)

subsection \<open>C7: publishing twice to the same raw address\<close>

text \<open>
  C7, as amended. With a Streamer that keeps the network streams as the specification
  describes, for every pair of publish requests, one after the other, whose paths give
  the same raw address and which both return streams: the second request finds the stream
  registered at the raw address after the first and returns it as its raw stream, without
  an \<open>AddNewNetworkStream\<close> call for the raw address and format RTMP (it is the raw stream
  the first request returned, unless the first request packaged to the raw address
  itself); each request makes exactly one \<open>AddNewNetworkStream\<close> call with format HLS, and
  the two packaged streams are distinct.
\<close>

theorem C7_raw_reused_packaged_fresh:
  assumes "parseStreamID (Path url1) = raw" and "parseStreamID (Path url2) = raw"
    and "raw \<noteq> []"
    and "fst (getStream (specStreamer self sep rf over ce) url1 w0) = Ret (Inr (rtmp1, hls1))"
    and "fst (getStream (specStreamer self sep rf over ce) url2
               (snd (getStream (specStreamer self sep rf over ce) url1 w0)))
         = Ret (Inr (rtmp2, hls2))"
  shows "networkStreams (ext (snd (getStream (specStreamer self sep rf over ce) url1 w0))) raw
           = Some rtmp2
       \<and> (GetStreamID hls1 \<noteq> raw \<longrightarrow> rtmp2 = rtmp1)
       \<and> count_list (calls (snd (getStream (specStreamer self sep rf over ce) url2
                (snd (getStream (specStreamer self sep rf over ce) url1 w0)))))
            (CAddNewNetworkStream raw RTMP)
          = count_list (calls (snd (getStream (specStreamer self sep rf over ce) url1 w0)))
              (CAddNewNetworkStream raw RTMP)
       \<and> length (filter isAddPackaged
             (calls (snd (getStream (specStreamer self sep rf over ce) url1 w0))))
          = length (filter isAddPackaged (calls w0)) + 1
       \<and> length (filter isAddPackaged
             (calls (snd (getStream (specStreamer self sep rf over ce) url2
                (snd (getStream (specStreamer self sep rf over ce) url1 w0))))))
          = length (filter isAddPackaged
              (calls (snd (getStream (specStreamer self sep rf over ce) url1 w0)))) + 1
       \<and> hls1 \<noteq> hls2"
proof -
  let ?E = "specStreamer self sep rf over ce"
  let ?w1 = "snd (getStream ?E url1 w0)"
  let ?w2 = "snd (getStream ?E url2 ?w1)"
  have g1: "getStream ?E url1 w0 = (Ret (Inr (rtmp1, hls1)), ?w1)"
    using assms(4) by (simp add: prod_eq_iff)
  have g2: "getStream ?E url2 ?w1 = (Ret (Inr (rtmp2, hls2)), ?w2)"
    using assms(5) by (simp add: prod_eq_iff)
  note f1 = spec_getStream [OF assms(1) assms(3) g1]
  note f2 = spec_getStream [OF assms(2) assms(3) g2]
  from f1 obtain s where s: "networkStreams (ext ?w1) raw = Some s" by auto
  with f2 have r2: "rtmp2 = s" by simp
  have a: "networkStreams (ext ?w1) raw = Some rtmp2" using s r2 by simp
  have b: "GetStreamID hls1 \<noteq> raw \<longrightarrow> rtmp2 = rtmp1" using f1 a by auto
  have c: "count_list (calls ?w2) (CAddNewNetworkStream raw RTMP)
             = count_list (calls ?w1) (CAddNewNetworkStream raw RTMP)"
    using f2 s by simp
  have d1: "length (filter isAddPackaged (calls ?w1)) = length (filter isAddPackaged (calls w0)) + 1"
    using f1 by simp
  have d2: "length (filter isAddPackaged (calls ?w2)) = length (filter isAddPackaged (calls ?w1)) + 1"
    using f2 by simp
  have "serial hls1 < serial hls2" using f1 f2 by simp
  then have e: "hls1 \<noteq> hls2" by auto
  from a b c d1 d2 e show ?thesis by blast
qed

text \<open>
  The amended C7 on node \<open>nodeA\<close>: two requests for the raw address \<open>nodeA0cam1\<close>, each
  with a freshly minted packaged address.
\<close>

theorem C7_raw_reused_packaged_fresh_witness:
  "parseStreamID (Path \<lparr>Path = ''/stream/nodeA0cam1'', hlsStrmIDParam = []\<rparr>) = ''nodeA0cam1''
   \<and> fst (getStream neverReady \<lparr>Path = ''/stream/nodeA0cam1'', hlsStrmIDParam = []\<rparr> startWorld)
       = Ret (Inr (\<lparr>GetStreamID = ''nodeA0cam1'', Format = RTMP, serial = 0\<rparr>,
                   \<lparr>GetStreamID = ''nodeA0rr'', Format = HLS, serial = 2\<rparr>))
   \<and> fst (getStream neverReady \<lparr>Path = ''/stream/nodeA0cam1'', hlsStrmIDParam = []\<rparr>
            (snd (getStream neverReady \<lparr>Path = ''/stream/nodeA0cam1'', hlsStrmIDParam = []\<rparr> startWorld)))
       = Ret (Inr (\<lparr>GetStreamID = ''nodeA0cam1'', Format = RTMP, serial = 0\<rparr>,
                   \<lparr>GetStreamID = ''nodeA0rrrr'', Format = HLS, serial = 4\<rparr>))
   \<and> networkStreams
        (ext (snd (getStream neverReady \<lparr>Path = ''/stream/nodeA0cam1'', hlsStrmIDParam = []\<rparr> startWorld)))
        ''nodeA0cam1''
       = Some \<lparr>GetStreamID = ''nodeA0cam1'', Format = RTMP, serial = 0\<rparr>
   \<and> count_list
        (calls (snd (getStream neverReady \<lparr>Path = ''/stream/nodeA0cam1'', hlsStrmIDParam = []\<rparr>
            (snd (getStream neverReady \<lparr>Path = ''/stream/nodeA0cam1'', hlsStrmIDParam = []\<rparr> startWorld)))))
        (CAddNewNetworkStream ''nodeA0cam1'' RTMP) = 1
   \<and> \<lparr>GetStreamID = ''nodeA0rr'', Format = HLS, serial = 2\<rparr>
       \<noteq> \<lparr>GetStreamID = ''nodeA0rrrr'', Format = HLS, serial = 4\<rparr>"
  using C7_raw_reused_packaged_fresh
          [of "\<lparr>Path = ''/stream/nodeA0cam1'', hlsStrmIDParam = []\<rparr>" "''nodeA0cam1''"
              "\<lparr>Path = ''/stream/nodeA0cam1'', hlsStrmIDParam = []\<rparr>"
              "''nodeA''" "''0''" None 0 None startWorld
              "\<lparr>GetStreamID = ''nodeA0cam1'', Format = RTMP, serial = 0\<rparr>"
              "\<lparr>GetStreamID = ''nodeA0rr'', Format = HLS, serial = 2\<rparr>"
              "\<lparr>GetStreamID = ''nodeA0cam1'', Format = RTMP, serial = 0\<rparr>"
              "\<lparr>GetStreamID = ''nodeA0rrrr'', Format = HLS, serial = 4\<rparr>"]
  by (simp add: parseStreamID_def alnum_def isAlpha_def isDigit_def logCall_def specStreamer_def
        specSplitComponents_def specMakeStreamID_def startWorld_def emptyStreamer_def Let_def
        getStream_def addNewNetworkStream_def mintStreamID_def neverReady_def)

text \<open>
  C7 as it is written fails: not every request with a raw address of this node makes a
  packaged stream. A second request that names a packaged address of another node finds
  the raw stream and is then rejected with \<open>ErrStreamPublish\<close>; it makes no
  \<open>AddNewNetworkStream\<close> call at all and returns no stream.
\<close>

theorem C7_foreign_packaged_address_no_stream:
  "fst (SplitComponents neverReady ''nodeA0cam1'') = SelfAddress neverReady
   \<and> fst (getStream neverReady \<lparr>Path = ''/stream/nodeA0cam1'', hlsStrmIDParam = ''nodeB0out''\<rparr>
            (snd (getStream neverReady \<lparr>Path = ''/stream/nodeA0cam1'', hlsStrmIDParam = []\<rparr> startWorld)))
       = Ret (Inl ErrStreamPublish)
   \<and> calls (snd (getStream neverReady \<lparr>Path = ''/stream/nodeA0cam1'', hlsStrmIDParam = ''nodeB0out''\<rparr>
            (snd (getStream neverReady \<lparr>Path = ''/stream/nodeA0cam1'', hlsStrmIDParam = []\<rparr> startWorld))))
       = calls (snd (getStream neverReady \<lparr>Path = ''/stream/nodeA0cam1'', hlsStrmIDParam = []\<rparr> startWorld))
         @ [CGetNetworkStream ''nodeA0cam1'']"
  by (simp add: parseStreamID_def alnum_def isAlpha_def isDigit_def logCall_def specStreamer_def
        specSplitComponents_def specMakeStreamID_def startWorld_def emptyStreamer_def Let_def
        getStream_def addNewNetworkStream_def mintStreamID_def neverReady_def)

end
